theory Spec2Isabelle
  imports Complex_Main
begin

section \<open>The plugin registration module \<open>q2_diversity_lib/plugin_setup.py\<close>\<close>

text \<open>
  The module is a flat sequence of top-level statements: it loads the citation store,
  constructs one \<open>Plugin\<close> object, binds three description strings and then calls
  \<open>plugin.methods.register_function\<close> twelve times. The embedding keeps that shape: the
  keyword arguments of every call are a record, the objects the module reads from
  elsewhere (\<open>citations.bib\<close>, the \<open>examples\<close> module, the metric tables, the version)
  are an environment, a subscript or attribute lookup that Python would answer with
  an exception is a value of a sum type, and executing the module threads the plugin
  object through the calls.
\<close>

subsection \<open>Semantic types of inputs and outputs\<close>

text \<open>
  \<open>q2_types\<close>: the module imports the three feature-table variants below and, of the
  tree variants, only \<open>Rooted\<close>. A type such as
  \<open>FeatureTable[Frequency | RelativeFrequency]\<close> carries the set of variants it accepts.
\<close>

datatype table_variant = Frequency | RelativeFrequency | PresenceAbsence

datatype tree_variant = Rooted | Unrooted

datatype sample_variant = AlphaDiversity

datatype semantic_type =
    FeatureTable "table_variant set"
  | Phylogeny "tree_variant set"
  | SampleData sample_variant
  | DistanceMatrix
  | List semantic_type

subsection \<open>Primitive types of parameters\<close>

text \<open>
  \<open>Range(start, end, inclusive_start=True, inclusive_end=False)\<close> keeps its two bounds
  (\<open>None\<close> for an open side) and its two flags; \<open>Choices\<close> keeps the values it lists.
  \<open>Int_type\<close> is the source's \<open>Int\<close>, \<open>Refine t p\<close> its \<open>t % p\<close>, \<open>Union_type a b\<close> its
  \<open>a | b\<close>, \<open>ListOf t\<close> its \<open>List[t]\<close> on a primitive type.
\<close>

datatype predicate =
    Range "int option" "int option" bool bool
  | Choices "string list"

datatype primitive_type =
    Int_type
  | Str
  | Bool
  | Float
  | Refine primitive_type predicate
  | Union_type primitive_type primitive_type
  | ListOf primitive_type

text \<open>A reference to a function of the sibling modules \<open>alpha\<close> and \<open>beta\<close>.\<close>

datatype callable_ref = alpha string | beta string

fun callable_name :: "callable_ref \<Rightarrow> string" where
  "callable_name (alpha n) = n"
| "callable_name (beta n) = n"

subsection \<open>Registration records\<close>

text \<open>
  The keyword arguments of one \<open>register_function\<close> call. A dict is an association list
  in the order the source writes it; \<open>parameters=None\<close> is \<open>None\<close>; a call without the
  \<open>citations\<close> keyword has \<open>citations = None\<close>. The record is used at two instances: with
  \<open>'c\<close> and \<open>'f\<close> both \<open>string\<close> it is the call as written, holding the citation keys
  \<open>citations['k']\<close> and the attribute names \<open>examples.a\<close>; after evaluation it holds the
  citation entries and the example callables themselves.
\<close>

record ('c, 'f) registration =
  function_ref :: callable_ref
  inputs :: "(string \<times> semantic_type) list"
  parameters :: "(string \<times> primitive_type) list option"
  outputs :: "(string \<times> semantic_type) list"
  input_descriptions :: "(string \<times> string) list"
  parameter_descriptions :: "(string \<times> string) list option"
  output_descriptions :: "(string \<times> string) list"
  name :: string
  description :: string
  examples :: "(string \<times> 'f) list"
  citations :: "'c list option"

text \<open>The plugin descriptor: its metadata and the registration records it owns.\<close>

record ('c, 'f) plugin =
  plugin_name :: string
  plugin_version :: string
  website :: string
  short_description :: string
  package :: string
  plugin_description :: string
  methods :: "string \<rightharpoonup> ('c, 'f) registration"

subsection \<open>What the module reads from elsewhere\<close>

text \<open>
  None of these is defined in the module: \<open>__version__\<close>, the citation store that
  \<open>Citations.load\<close> returns, the namespace of the \<open>examples\<close> module (attribute name
  and the callable bound to it), the three metric collections \<open>alpha.METRICS\<close> and
  \<open>beta.METRICS\<close> are indexed for, and \<open>unifrac._meta.CONSOLIDATIONS\<close>. They are
  parameters of everything below. The metric collections and the functions of \<open>alpha\<close>
  and \<open>beta\<close> are taken as present; the lookups in the citation store and in the
  \<open>examples\<close> namespace can fail.
\<close>

record ('c, 'f) environment =
  version :: string
  citations_bib :: "(string \<times> 'c) list"
  examples_module :: "(string \<times> 'f) list"
  alpha_METRICS_NONPHYLO_UNIMPL :: "string list"
  beta_METRICS_NONPHYLO_UNIMPL :: "string list"
  beta_METRICS_PHYLO_UNIMPL :: "string list"
  CONSOLIDATIONS :: "string list"

datatype error = KeyError string | AttributeError string

text \<open>\<open>citations['k']\<close> raises \<open>KeyError\<close> on a missing key.\<close>

definition getitem :: "(string \<times> 'v) list \<Rightarrow> string \<Rightarrow> error + 'v" where
  "getitem d k = (case map_of d k of None \<Rightarrow> Inl (KeyError k) | Some v \<Rightarrow> Inr v)"

text \<open>\<open>examples.a\<close> raises \<open>AttributeError\<close> on a missing attribute.\<close>

definition getattribute :: "(string \<times> 'v) list \<Rightarrow> string \<Rightarrow> error + 'v" where
  "getattribute m a = (case map_of m a of None \<Rightarrow> Inl (AttributeError a) | Some v \<Rightarrow> Inr v)"

text \<open>
  A list display \<open>[citations['a'], citations['b'], ...]\<close> and a dict display
  \<open>{'k': examples.a, ...}\<close> evaluate their elements from left to right and stop at the
  first exception.
\<close>

fun citation_list :: "(string \<times> 'c) list \<Rightarrow> string list \<Rightarrow> error + 'c list" where
  "citation_list d [] = Inr []"
| "citation_list d (k # ks) =
     (case getitem d k of
        Inl e \<Rightarrow> Inl e
      | Inr v \<Rightarrow> (case citation_list d ks of Inl e \<Rightarrow> Inl e | Inr vs \<Rightarrow> Inr (v # vs)))"

fun examples_dict :: "(string \<times> 'f) list \<Rightarrow> (string \<times> string) list \<Rightarrow> error + (string \<times> 'f) list" where
  "examples_dict m [] = Inr []"
| "examples_dict m ((k, a) # kas) =
     (case getattribute m a of
        Inl e \<Rightarrow> Inl e
      | Inr f \<Rightarrow> (case examples_dict m kas of Inl e \<Rightarrow> Inl e | Inr kfs \<Rightarrow> Inr ((k, f) # kfs)))"

text \<open>
  The arguments as \<open>register_function\<close> receives them: the literal ones as written, the
  example callables and the citation entries in place of the expressions that denote
  them.
\<close>

definition with_objects ::
  "(string, string) registration \<Rightarrow> (string \<times> 'f) list \<Rightarrow> 'c list option \<Rightarrow> ('c, 'f) registration" where
  "with_objects c exs cits =
     \<lparr> function_ref = function_ref c,
       inputs = inputs c,
       parameters = parameters c,
       outputs = outputs c,
       input_descriptions = input_descriptions c,
       parameter_descriptions = parameter_descriptions c,
       output_descriptions = output_descriptions c,
       name = name c,
       description = description c,
       examples = exs,
       citations = cits \<rparr>"

text \<open>
  Evaluating the arguments of one call: the \<open>examples\<close> keyword comes before the
  \<open>citations\<close> keyword in every call, so its lookups run first. Every other argument
  is a literal or a name bound earlier.
\<close>

definition evaluate_arguments ::
  "('c, 'f) environment \<Rightarrow> (string, string) registration \<Rightarrow> error + ('c, 'f) registration" where
  "evaluate_arguments env c =
     (case examples_dict (examples_module env) (examples c) of
        Inl e \<Rightarrow> Inl e
      | Inr exs \<Rightarrow>
          (case citations c of
             None \<Rightarrow> Inr (with_objects c exs None)
           | Some ks \<Rightarrow>
               (case citation_list (citations_bib env) ks of
                  Inl e \<Rightarrow> Inl e
                | Inr cs \<Rightarrow> Inr (with_objects c exs (Some cs)))))"

subsection \<open>The plugin object\<close>

text \<open>The \<open>Plugin(...)\<close> constructor call of the module; no method is registered yet.\<close>

definition Plugin :: "('c, 'f) environment \<Rightarrow> ('c, 'f) plugin" where
  "Plugin env =
     \<lparr> plugin_name = ''diversity-lib'',
       plugin_version = version env,
       website = ''https://github.com/qiime2/q2-diversity-lib'',
       short_description = ''Plugin for computing community diversity.'',
       package = ''q2_diversity_lib'',
       plugin_description =
          ''This QIIME 2 plugin computes individual metrics for  community alpha and beta diversity.'',
       methods = Map.empty \<rparr>"

text \<open>
  Modelled from the spec: \<open>plugin.methods.register_function\<close> is a method of the
  external framework, not of this repository. The spec says that one plugin owns many
  registration records; the records are kept in a dict under the name of the
  registered function, so a second registration of the same name would replace the
  first. The checks the framework makes on the arguments are not part of the model.
\<close>

definition register_function :: "('c, 'f) plugin \<Rightarrow> ('c, 'f) registration \<Rightarrow> ('c, 'f) plugin" where
  "register_function p r = p\<lparr>methods := (methods p)(callable_name (function_ref r) \<mapsto> r)\<rparr>"

subsection \<open>The module's constants and its twelve calls\<close>

definition n_jobs_description :: string where
  "n_jobs_description =
     ''The number of concurrent jobs to use in performing this calculation. May not exceed the number of available physical cores. If n_jobs = 'auto', one job will be launched for each identified CPU core on the host.''"

definition threads_description :: string where
  "threads_description =
     ''The number of CPU threads to use in performing this calculation. May not exceed the number of available physical cores. If threads = 'auto', one thread will be created for each identified CPU core on the host.''"

definition drop_undef_samples_description :: string where
  "drop_undef_samples_description =
     ''When calculating some metrics, samples with fewer than a predetermined number of features produce undefined (NaN) values. If true, affected samples are dropped from metrics with 'drop_undefined_samples' implemented. For metrics without a 'drop_undefined_samples' parameter, this value will be ignored and no samples will be dropped.''"

definition faith_pd_registration :: "(string, string) registration" where
  "faith_pd_registration =
     \<lparr> function_ref = alpha ''faith_pd'',
       inputs =
          [(''table'', FeatureTable {Frequency, RelativeFrequency, PresenceAbsence}),
           (''phylogeny'', Phylogeny {Rooted})],
       parameters =
          Some [(''threads'', Union_type (Refine Int_type (Range (Some 1) None True False)) (Refine Str (Choices [''auto''])))],
       outputs = [(''vector'', SampleData AlphaDiversity)],
       input_descriptions =
          [(''table'', ''The feature table containing the samples for which Faith's phylogenetic diversity should be computed. Table values will be converted to presence/absence.''),
           (''phylogeny'', ''Phylogenetic tree containing tip identifiers that correspond to the feature identifiers in the table. This tree can contain tip ids that are not present in the table, but all feature ids in the table must be present in this tree.'')],
       parameter_descriptions =
          Some [(''threads'', threads_description)],
       output_descriptions =
          [(''vector'', ''Vector containing per-sample values for Faith's Phylogenetic Diversity.'')],
       name = ''Faith's Phylogenetic Diversity'',
       description =
          ''Computes Faith's Phylogenetic Diversity for all samples in a feature table.'',
       examples =
          [(''basic'', ''faith_pd_example'')],
       citations =
          Some [''faith1992conservation'',
                ''armstrong2021faithspd''] \<rparr>"

definition observed_features_registration :: "(string, string) registration" where
  "observed_features_registration =
     \<lparr> function_ref = alpha ''observed_features'',
       inputs =
          [(''table'', FeatureTable {Frequency, RelativeFrequency, PresenceAbsence})],
       parameters =
          None,
       outputs = [(''vector'', SampleData AlphaDiversity)],
       input_descriptions =
          [(''table'', ''The feature table containing the samples for which the number of observed features should be calculated. Table values will be converted to presence/absence.'')],
       parameter_descriptions =
          None,
       output_descriptions =
          [(''vector'', ''Vector containing per-sample counts of observed features.'')],
       name = ''Observed Features'',
       description =
          ''Compute the number of observed features for each sample in a feature table'',
       examples =
          [(''basic'', ''observed_features_example'')],
       citations = None \<rparr>"

definition pielou_evenness_registration :: "(string, string) registration" where
  "pielou_evenness_registration =
     \<lparr> function_ref = alpha ''pielou_evenness'',
       inputs =
          [(''table'', FeatureTable {Frequency, RelativeFrequency})],
       parameters =
          Some [(''drop_undefined_samples'', Bool)],
       outputs = [(''vector'', SampleData AlphaDiversity)],
       input_descriptions =
          [(''table'', ''The feature table containing the samples for which Pielou's evenness should be computed.'')],
       parameter_descriptions =
          Some [(''drop_undefined_samples'', ''Samples with fewer than two observed features produce undefined (NaN) values. If true, these samples are dropped from the output vector.'')],
       output_descriptions =
          [(''vector'', ''Vector containing per-sample values for Pielou's Evenness.'')],
       name = ''Pielou's Evenness'',
       description =
          ''Compute Pielou's Evenness for each sample in a feature table'',
       examples =
          [(''basic'', ''pielou_evenness_example''),
           (''dropping undefined samples'', ''pielou_drop_example'')],
       citations =
          Some [''pielou1966measurement''] \<rparr>"

definition shannon_entropy_registration :: "(string, string) registration" where
  "shannon_entropy_registration =
     \<lparr> function_ref = alpha ''shannon_entropy'',
       inputs =
          [(''table'', FeatureTable {Frequency, RelativeFrequency})],
       parameters =
          Some [(''drop_undefined_samples'', Bool)],
       outputs = [(''vector'', SampleData AlphaDiversity)],
       input_descriptions =
          [(''table'', ''The feature table containing the samples for which Shannon's Entropy should be computed.'')],
       parameter_descriptions =
          Some [(''drop_undefined_samples'', ''Samples with no observed features produce undefined (NaN) values. If true, these samples are dropped from the output vector.'')],
       output_descriptions =
          [(''vector'', ''Vector containing per-sample values for Shannon's Entropy.'')],
       name = ''Shannon's Entropy'',
       description =
          ''Compute Shannon's Entropy for each sample in a feature table'',
       examples =
          [(''basic'', ''shannon_entropy_example''),
           (''dropping undefined samples'', ''shannon_drop_example'')],
       citations =
          Some [''shannon1948communication''] \<rparr>"

definition bray_curtis_registration :: "(string, string) registration" where
  "bray_curtis_registration =
     \<lparr> function_ref = beta ''bray_curtis'',
       inputs =
          [(''table'', FeatureTable {Frequency, RelativeFrequency})],
       parameters =
          Some [(''n_jobs'', Union_type (Refine Int_type (Range (Some 1) None True False)) (Refine Str (Choices [''auto''])))],
       outputs = [(''distance_matrix'', DistanceMatrix)],
       input_descriptions =
          [(''table'', ''The feature table containing the samples for which Bray-Curtis dissimilarity should be computed.'')],
       parameter_descriptions =
          Some [(''n_jobs'', n_jobs_description)],
       output_descriptions =
          [(''distance_matrix'', ''Distance matrix for Bray-Curtis dissimilarity'')],
       name = ''Bray-Curtis Dissimilarity'',
       description =
          ''Compute Bray-Curtis dissimilarity for each sample in a feature table. Note: Frequency and relative frequency data produce different results unless overall sample sizes are identical. Please consider the impact on your results if you use Bray-Curtis with count data that has not been adjusted (normalized).'',
       examples =
          [(''run on one core (by default)'', ''bray_curtis_example''),
           (''to run on n cores, replace 1 here with your preferred integer'', ''bray_curtis_n_jobs_example''),
           (''use 'auto' to run on all of host system's available CPU cores'', ''bray_curtis_auto_jobs_example'')],
       citations =
          Some [''sorensen1948method''] \<rparr>"

definition jaccard_registration :: "(string, string) registration" where
  "jaccard_registration =
     \<lparr> function_ref = beta ''jaccard'',
       inputs =
          [(''table'', FeatureTable {Frequency, RelativeFrequency, PresenceAbsence})],
       parameters =
          Some [(''n_jobs'', Union_type (Refine Int_type (Range (Some 1) None True False)) (Refine Str (Choices [''auto''])))],
       outputs = [(''distance_matrix'', DistanceMatrix)],
       input_descriptions =
          [(''table'', ''The feature table containing the samples for which Jaccard distance should be computed.'')],
       parameter_descriptions =
          Some [(''n_jobs'', n_jobs_description)],
       output_descriptions =
          [(''distance_matrix'', ''Distance matrix for Jaccard index'')],
       name = ''Jaccard Distance'',
       description =
          ''Compute Jaccard distance for each sample in a feature table. Jaccard is calculated usingpresence/absence data. Data of type FeatureTable[Frequency | Relative Frequency] is reducedto presence/absence prior to calculation.'',
       examples =
          [(''run on one core (by default)'', ''jaccard_example''),
           (''to run on n cores, replace 1 here with your preferred integer'', ''jaccard_n_jobs_example''),
           (''use 'auto' to run on all of host system's available CPU cores'', ''jaccard_auto_jobs_example'')],
       citations =
          Some [''jaccard1908nouvelles''] \<rparr>"

definition unweighted_unifrac_registration :: "(string, string) registration" where
  "unweighted_unifrac_registration =
     \<lparr> function_ref = beta ''unweighted_unifrac'',
       inputs =
          [(''table'', FeatureTable {Frequency, RelativeFrequency, PresenceAbsence}),
           (''phylogeny'', Phylogeny {Rooted})],
       parameters =
          Some [(''threads'', Union_type (Refine Int_type (Range (Some 1) None True False)) (Refine Str (Choices [''auto'']))),
                (''bypass_tips'', Bool)],
       outputs = [(''distance_matrix'', DistanceMatrix)],
       input_descriptions =
          [(''table'', ''The feature table containing the samples for which Unweighted Unifrac should be computed.''),
           (''phylogeny'', ''Phylogenetic tree containing tip identifiers that correspond to the feature identifiers in the table. This tree can contain tip ids that are not present in the table, but all feature ids in the table must be present in this tree.'')],
       parameter_descriptions =
          Some [(''threads'', threads_description),
                (''bypass_tips'', ''In a bifurcating tree, the tips make up about 50% of the nodes in a tree. By ignoring them, specificity can be traded for reduced compute time. This has the effect of collapsing the phylogeny, and is analogous (in concept) to moving from 99% to 97% OTUs'')],
       output_descriptions =
          [(''distance_matrix'', ''Distance matrix for Unweighted Unifrac.'')],
       name = ''Unweighted Unifrac'',
       description =
          ''Compute Unweighted Unifrac for each sample in a feature table'',
       examples =
          [(''run on one core (by default)'', ''u_u_example''),
           (''to run on n cores, replace 1 here with your preferred integer'', ''u_u_n_threads_example''),
           (''use 'auto' to run on all of host system's available CPU cores'', ''u_u_auto_threads_example''),
           (''use bypass_tips to trade specificity for reduced compute time'', ''u_u_bypass_tips_example'')],
       citations =
          Some [''lozupone2005unifrac'',
                ''lozupone2007unifrac'',
                ''hamady2010unifrac'',
                ''lozupone2011unifrac'',
                ''mcdonald2018unifrac''] \<rparr>"

definition weighted_unifrac_registration :: "(string, string) registration" where
  "weighted_unifrac_registration =
     \<lparr> function_ref = beta ''weighted_unifrac'',
       inputs =
          [(''table'', FeatureTable {Frequency, RelativeFrequency}),
           (''phylogeny'', Phylogeny {Rooted})],
       parameters =
          Some [(''threads'', Union_type (Refine Int_type (Range (Some 1) None True False)) (Refine Str (Choices [''auto'']))),
                (''bypass_tips'', Bool)],
       outputs = [(''distance_matrix'', DistanceMatrix)],
       input_descriptions =
          [(''table'', ''The feature table containing the samples for which Weighted Unifrac should be computed.''),
           (''phylogeny'', ''Phylogenetic tree containing tip identifiers that correspond to the feature identifiers in the table. This tree can contain tip ids that are not present in the table, but all feature ids in the table must be present in this tree.'')],
       parameter_descriptions =
          Some [(''threads'', threads_description),
                (''bypass_tips'', ''In a bifurcating tree, the tips make up about 50% of the nodes in a tree. By ignoring them, specificity can be traded for reduced compute time. This has the effect of collapsing the phylogeny, and is analogous (in concept) to moving from 99% to 97% OTUs'')],
       output_descriptions =
          [(''distance_matrix'', ''Distance matrix for Unweighted Unifrac.'')],
       name = ''Weighted Unifrac'',
       description =
          ''Compute Weighted Unifrac for each sample in a feature table'',
       examples =
          [(''run on one core (by default)'', ''w_u_example''),
           (''to run on n cores, replace 1 here with your preferred integer'', ''w_u_n_threads_example''),
           (''use 'auto' to run on all of host system's available CPU cores'', ''w_u_auto_threads_example''),
           (''use bypass_tips to trade specificity for reduced compute time'', ''w_u_bypass_tips_example'')],
       citations =
          Some [''lozupone2005unifrac'',
                ''lozupone2007unifrac'',
                ''hamady2010unifrac'',
                ''lozupone2011unifrac'',
                ''mcdonald2018unifrac''] \<rparr>"

definition alpha_passthrough_registration :: "('c, 'f) environment \<Rightarrow> (string, string) registration" where
  "alpha_passthrough_registration env =
     \<lparr> function_ref = alpha ''alpha_passthrough'',
       inputs =
          [(''table'', FeatureTable {Frequency})],
       parameters =
          Some [(''metric'', Refine Str (Choices (alpha_METRICS_NONPHYLO_UNIMPL env)))],
       outputs = [(''vector'', SampleData AlphaDiversity)],
       input_descriptions =
          [(''table'', ''The feature table containing the samples for which a selected metric should be computed.'')],
       parameter_descriptions =
          Some [(''metric'', ''The alpha diversity metric to be computed.'')],
       output_descriptions =
          [(''vector'', ''Vector containing per-sample values for the chosen metric.'')],
       name = ''Alpha Passthrough (non-phylogenetic)'',
       description =
          ''Computes a vector of values (one value for each samples in a feature table) using the scikit-bio implementation of the selected alpha diversity metric.'',
       examples =
          [(''basic'', ''alpha_passthrough_example'')],
       citations = None \<rparr>"

definition beta_passthrough_registration :: "('c, 'f) environment \<Rightarrow> (string, string) registration" where
  "beta_passthrough_registration env =
     \<lparr> function_ref = beta ''beta_passthrough'',
       inputs =
          [(''table'', FeatureTable {Frequency})],
       parameters =
          Some [(''metric'', Refine Str (Choices (beta_METRICS_NONPHYLO_UNIMPL env))),
                (''pseudocount'', Refine Int_type (Range (Some 1) None True False)),
                (''n_jobs'', Union_type (Refine Int_type (Range (Some 1) None True False)) (Refine Str (Choices [''auto''])))],
       outputs = [(''distance_matrix'', DistanceMatrix)],
       input_descriptions =
          [(''table'', ''The feature table containing the samples over which beta diversity should be computed.'')],
       parameter_descriptions =
          Some [(''metric'', ''The beta diversity metric to be computed.''),
                (''pseudocount'', ''A pseudocount to handle zeros for compositional metrics. This is ignored for non-compositional metrics.''),
                (''n_jobs'', n_jobs_description)],
       output_descriptions =
          [(''distance_matrix'', ''The resulting distance matrix.'')],
       name = ''Beta Passthrough (non-phylogenetic)'',
       description =
          ''Computes a distance matrix for all pairs of samples in a feature table using the scikit-bio implementation of the selected beta diversity metric.'',
       examples =
          [(''run on one core (by default)'', ''beta_passthrough_example''),
           (''to run on n cores, replace 1 here with your preferred integer'', ''beta_passthrough_n_jobs_example''),
           (''use 'auto' to run on all of host system's available CPU cores'', ''beta_passthrough_auto_jobs_example''),
           (''use 'pseudocount' to manually set a pseudocount for compositional metrics'', ''beta_passthrough_pseudocount_example'')],
       citations = None \<rparr>"

definition beta_phylogenetic_passthrough_registration :: "('c, 'f) environment \<Rightarrow> (string, string) registration" where
  "beta_phylogenetic_passthrough_registration env =
     \<lparr> function_ref = beta ''beta_phylogenetic_passthrough'',
       inputs =
          [(''table'', FeatureTable {Frequency}),
           (''phylogeny'', Phylogeny {Rooted})],
       parameters =
          Some [(''metric'', Refine Str (Choices (beta_METRICS_PHYLO_UNIMPL env))),
                (''threads'', Union_type (Refine Int_type (Range (Some 1) None True False)) (Refine Str (Choices [''auto'']))),
                (''variance_adjusted'', Bool),
                (''alpha'', Refine Float (Range (Some 0) (Some 1) True True)),
                (''bypass_tips'', Bool)],
       outputs = [(''distance_matrix'', DistanceMatrix)],
       input_descriptions =
          [(''table'', ''The feature table containing the samples over which beta diversity should be computed.''),
           (''phylogeny'', ''Phylogenetic tree containing tip identifiers that correspond to the feature identifiers in the table. This tree can contain tip ids that are not present in the table, but all feature ids in the table must be present in this tree.'')],
       parameter_descriptions =
          Some [(''metric'', ''The beta diversity metric to be computed.''),
                (''threads'', threads_description),
                (''variance_adjusted'', ''Perform variance adjustment based on Chang et al. BMC Bioinformatics 2011. Weights distances based on the proportion of the relative abundance represented between the samples at a given node under evaluation.''),
                (''alpha'', ''This parameter is only used when the choice of metric is generalized_unifrac. The value of alpha controls importance of sample proportions. 1.0 is weighted normalized UniFrac. 0.0 is close to unweighted UniFrac, but only if the sample proportions are dichotomized.''),
                (''bypass_tips'', ''In a bifurcating tree, the tips make up about 50% of the nodes in a tree. By ignoring them, specificity can be traded for reduced compute time. This has the effect of collapsing the phylogeny, and is analogous (in concept) to moving from 99% to 97% OTUs'')],
       output_descriptions =
          [(''distance_matrix'', ''The resulting distance matrix.'')],
       name = ''Beta Phylogenetic Passthrough'',
       description =
          ''Computes a distance matrix for all pairs of samples in a feature table using the unifrac implementation of the selected beta diversity metric.'',
       examples =
          [(''run on one core (by default)'', ''beta_phylo_passthrough_example''),
           (''to run on n cores, replace 1 here with your preferred integer'', ''beta_phylo_passthrough_n_threads_example''),
           (''use 'auto' to run on all of host system's available CPU cores'', ''beta_phylo_passthrough_auto_threads_example''),
           (''use bypass_tips to trade specificity for reduced compute time'', ''beta_phylo_passthrough_bypass_tips_example''),
           (''variance adjustment'', ''beta_phylo_passthrough_variance_adjusted_example''),
           (''minimal generalized unifrac'', ''beta_phylo_passthrough_min_generalized_unifrac_example''),
           (''generalized unifrac'', ''beta_phylo_passthrough_generalized_unifrac_example'')],
       citations =
          Some [''lozupone2005unifrac'',
                ''lozupone2007unifrac'',
                ''hamady2010unifrac'',
                ''lozupone2011unifrac'',
                ''mcdonald2018unifrac'',
                ''chang2011variance'',
                ''chen2012genUnifrac'',
                ''sfiligoi2022unifrac''] \<rparr>"

definition beta_phylogenetic_meta_passthrough_registration :: "('c, 'f) environment \<Rightarrow> (string, string) registration" where
  "beta_phylogenetic_meta_passthrough_registration env =
     \<lparr> function_ref = beta ''beta_phylogenetic_meta_passthrough'',
       inputs =
          [(''tables'', List (FeatureTable {Frequency})),
           (''phylogenies'', List (Phylogeny {Rooted}))],
       parameters =
          Some [(''metric'', Refine Str (Choices (beta_METRICS_PHYLO_UNIMPL env))),
                (''threads'', Union_type (Refine Int_type (Range (Some 1) None True False)) (Refine Str (Choices [''auto'']))),
                (''variance_adjusted'', Bool),
                (''alpha'', Refine Float (Range (Some 0) (Some 1) True True)),
                (''bypass_tips'', Bool),
                (''weights'', ListOf Float),
                (''consolidation'', Refine Str (Choices (CONSOLIDATIONS env)))],
       outputs = [(''distance_matrix'', DistanceMatrix)],
       input_descriptions =
          [(''tables'', ''The feature tables containing the samples over which beta diversity should be computed.''),
           (''phylogenies'', ''Phylogenetic trees containing tip identifiers that correspond to the feature identifiers in the table. This tree can contain tip ids that are not present in the table, but all feature ids in the table must be present in this tree.'')],
       parameter_descriptions =
          Some [(''metric'', ''The beta diversity metric to be computed.''),
                (''threads'', threads_description),
                (''variance_adjusted'', ''Perform variance adjustment based on Chang et al. BMC Bioinformatics 2011. Weights distances based on the proportion of the relative abundance represented between the samples at a given node under evaluation.''),
                (''alpha'', ''This parameter is only used when the choice of metric is generalized_unifrac. The value of alpha controls importance of sample proportions. 1.0 is weighted normalized UniFrac. 0.0 is close to unweighted UniFrac, but only if the sample proportions are dichotomized.''),
                (''bypass_tips'', ''In a bifurcating tree, the tips make up about 50% of the nodes in a tree. By ignoring them, specificity can be traded for reduced compute time. This has the effect of collapsing the phylogeny, and is analogous (in concept) to moving from 99% to 97% OTUs''),
                (''weights'', ''The weight applied to each tree/table pair. This tuple is expected to be in index order with tables and phylogenies. Default is to weight each tree/table pair evenly.''),
                (''consolidation'', ''The matrix consolidation method, which determines how the individual distance matrices are aggregated'')],
       output_descriptions =
          [(''distance_matrix'', ''The resulting distance matrix.'')],
       name = ''Beta Phylogenetic Meta Passthrough'',
       description =
          ''Computes a distance matrix for all pairs of samples in the set of feature table and phylogeny pairs, using the unifrac implementation of the selected beta diversity metric.'',
       examples =
          [(''Basic meta unifrac'', ''beta_phylo_meta_passthrough_example''),
           (''meta with weights'', ''beta_phylo_meta_weights_example''),
           (''changing the consolidation method'', ''beta_phylo_meta_consolidation_example'')],
       citations =
          Some [''lozupone2005unifrac'',
                ''lozupone2007unifrac'',
                ''hamady2010unifrac'',
                ''lozupone2011unifrac'',
                ''mcdonald2018unifrac'',
                ''chang2011variance'',
                ''chen2012genUnifrac'',
                ''lozupone2008metaunifrac''] \<rparr>"

text \<open>The calls in the order of the module text.\<close>

definition register_calls :: "('c, 'f) environment \<Rightarrow> (string, string) registration list" where
  "register_calls env =
     [faith_pd_registration,
      observed_features_registration,
      pielou_evenness_registration,
      shannon_entropy_registration,
      bray_curtis_registration,
      jaccard_registration,
      unweighted_unifrac_registration,
      weighted_unifrac_registration,
      alpha_passthrough_registration env,
      beta_passthrough_registration env,
      beta_phylogenetic_passthrough_registration env,
      beta_phylogenetic_meta_passthrough_registration env]"

subsection \<open>Executing the module\<close>

text \<open>
  The calls run in order on the one plugin object. An exception raised while the
  arguments of a call are evaluated ends the import: the calls after it never run, and
  the plugin object keeps the records registered so far. The result is the plugin
  object as the import leaves it, and the exception if there was one.
\<close>

fun run_calls ::
  "('c, 'f) environment \<Rightarrow> (string, string) registration list \<Rightarrow> ('c, 'f) plugin
     \<Rightarrow> ('c, 'f) plugin \<times> error option" where
  "run_calls env [] p = (p, None)"
| "run_calls env (c # cs) p =
     (case evaluate_arguments env c of
        Inl e \<Rightarrow> (p, Some e)
      | Inr r \<Rightarrow> run_calls env cs (register_function p r))"

definition module_load :: "('c, 'f) environment \<Rightarrow> ('c, 'f) plugin \<times> error option" where
  "module_load env = run_calls env (register_calls env) (Plugin env)"


subsection \<open>Reading a registration\<close>

definition parameter_list :: "('c, 'f) registration \<Rightarrow> (string \<times> primitive_type) list" where
  "parameter_list r = (case parameters r of None \<Rightarrow> [] | Some ps \<Rightarrow> ps)"

definition parameter_names :: "('c, 'f) registration \<Rightarrow> string list" where
  "parameter_names r = map fst (parameter_list r)"

definition cited :: "('c, 'f) registration \<Rightarrow> 'c list" where
  "cited r = (case citations r of None \<Rightarrow> [] | Some cs \<Rightarrow> cs)"

text \<open>
  Every declared parameter has a description; a registration without parameters
  (\<open>parameters=None\<close>) has \<open>parameter_descriptions=None\<close>.
\<close>

definition parameters_documented :: "('c, 'f) registration \<Rightarrow> bool" where
  "parameters_documented r =
     (case parameters r of
        None \<Rightarrow> parameter_descriptions r = None
      | Some ps \<Rightarrow>
          (case parameter_descriptions r of
             None \<Rightarrow> False
           | Some ds \<Rightarrow> list_all (\<lambda>n. n \<in> set (map fst ds)) (map fst ps)))"

text \<open>
  The variants a table input accepts: those of the \<open>FeatureTable\<close> itself, or of the
  tables of a \<open>List[FeatureTable[...]]\<close>.
\<close>

fun table_variants :: "semantic_type \<Rightarrow> table_variant set option" where
  "table_variants (FeatureTable vs) = Some vs"
| "table_variants (List t) = table_variants t"
| "table_variants _ = None"

definition accepted_normalizations :: "('c, 'f) registration \<Rightarrow> table_variant set list" where
  "accepted_normalizations r = List.map_filter (\<lambda>(n, t). table_variants t) (inputs r)"

fun accepts_unrooted :: "semantic_type \<Rightarrow> bool" where
  "accepts_unrooted (Phylogeny vs) = (Unrooted \<in> vs)"
| "accepts_unrooted (List t) = accepts_unrooted t"
| "accepts_unrooted _ = False"

subsection \<open>Parameter values and what a declared type admits\<close>

text \<open>
  Modelled from the spec: the type-constraint vocabulary (\<open>Int\<close>, \<open>Str\<close>, \<open>Bool\<close>,
  \<open>Float\<close>, \<open>List\<close>, \<open>Range\<close>, \<open>Choices\<close>, \<open>%\<close> and \<open>|\<close>) is the external framework's and
  its validation code is not under src. The spec names the rules it declares: numeric
  ranges, enumerated choices and type membership. The clauses follow the framework's
  membership tests. A float is the real number it denotes, or NaN. \<open>Int\<close> admits the
  integers and \<open>Float\<close> every real number, the integers among them, and NaN; a boolean
  is neither. A \<open>Range\<close> rejects a value that compares below its start or above its
  end, so NaN, which compares with nothing, passes it. \<open>Choices\<close> admits the values it
  lists. \<open>List[t]\<close> admits a list that is not empty and whose elements \<open>t\<close> admits.
\<close>

datatype pvalue =
    VInt int
  | VStr string
  | VBool bool
  | VFloat real
  | VNaN
  | VList "pvalue list"

definition in_range :: "int option \<Rightarrow> int option \<Rightarrow> bool \<Rightarrow> bool \<Rightarrow> real \<Rightarrow> bool" where
  "in_range lo hi inclusive_start inclusive_end x =
     ((case lo of
         None \<Rightarrow> True
       | Some l \<Rightarrow> if inclusive_start then real_of_int l \<le> x else real_of_int l < x)
      \<and> (case hi of
            None \<Rightarrow> True
          | Some h \<Rightarrow> if inclusive_end then x \<le> real_of_int h else x < real_of_int h))"

fun satisfies :: "predicate \<Rightarrow> pvalue \<Rightarrow> bool" where
  "satisfies (Range lo hi inclusive_start inclusive_end) (VInt n) =
     in_range lo hi inclusive_start inclusive_end (real_of_int n)"
| "satisfies (Range lo hi inclusive_start inclusive_end) (VFloat x) =
     in_range lo hi inclusive_start inclusive_end x"
| "satisfies (Range lo hi inclusive_start inclusive_end) VNaN = True"
| "satisfies (Choices cs) (VStr s) = (s \<in> set cs)"
| "satisfies _ _ = False"

fun admits :: "primitive_type \<Rightarrow> pvalue \<Rightarrow> bool" where
  "admits Int_type v = (case v of VInt n \<Rightarrow> True | _ \<Rightarrow> False)"
| "admits Str v = (case v of VStr s \<Rightarrow> True | _ \<Rightarrow> False)"
| "admits Bool v = (case v of VBool b \<Rightarrow> True | _ \<Rightarrow> False)"
| "admits Float v = (case v of VFloat x \<Rightarrow> True | VInt n \<Rightarrow> True | VNaN \<Rightarrow> True | _ \<Rightarrow> False)"
| "admits (Refine t p) v = (admits t v \<and> satisfies p v)"
| "admits (Union_type a b) v = (admits a v \<or> admits b v)"
| "admits (ListOf t) v =
     (case v of VList vs \<Rightarrow> vs \<noteq> [] \<and> list_all (admits t) vs | _ \<Rightarrow> False)"

text \<open>
  The four constraint forms the spec lists: an integer restricted to a range, a string
  restricted to an enumerated set of choices, a boolean, a float bounded to \<open>[0, 1]\<close>.
  A union is of these forms when both of its sides are.
\<close>

fun constraint_form :: "primitive_type \<Rightarrow> bool" where
  "constraint_form (Refine Int_type (Range lo hi inclusive_start inclusive_end)) = True"
| "constraint_form (Refine Str (Choices cs)) = True"
| "constraint_form Bool = True"
| "constraint_form (Refine Float (Range lo hi inclusive_start inclusive_end)) =
     (lo = Some 0 \<and> hi = Some 1 \<and> inclusive_start \<and> inclusive_end)"
| "constraint_form (Union_type a b) = (constraint_form a \<and> constraint_form b)"
| "constraint_form _ = False"

text \<open>
  Modelled from the spec: the registered functions themselves (modules \<open>alpha\<close> and
  \<open>beta\<close>) are not under src. The spec describes each as a thin forwarding call that
  passes the user-supplied parameters straight through to the external library:
  the library receives the arguments of the declared parameters as they were given.
\<close>

definition forwarded_arguments ::
  "('c, 'f) registration \<Rightarrow> (string \<rightharpoonup> pvalue) \<Rightarrow> (string \<rightharpoonup> pvalue)" where
  "forwarded_arguments r args = args |` set (parameter_names r)"

subsection \<open>The plugin object while the module runs\<close>

text \<open>The plugin object after the first \<open>n\<close> calls of the module text.\<close>

definition state_after :: "('c, 'f) environment \<Rightarrow> nat \<Rightarrow> ('c, 'f) plugin" where
  "state_after env n = fst (run_calls env (take n (register_calls env)) (Plugin env))"

definition registered_names :: "('c, 'f) environment \<Rightarrow> string list" where
  "registered_names env = map (\<lambda>c. callable_name (function_ref c)) (register_calls env)"

text \<open>
  Every name a call looks up is there: the attributes it reads from \<open>examples\<close> and the
  keys at which it subscripts \<open>citations\<close>.
\<close>

definition lookups_defined :: "('c, 'f) environment \<Rightarrow> (string, string) registration \<Rightarrow> bool" where
  "lookups_defined env c =
     (list_all (\<lambda>(k, a). a \<in> set (map fst (examples_module env))) (examples c)
      \<and> list_all (\<lambda>k. k \<in> set (map fst (citations_bib env))) (cited c))"

text \<open>
  The attributes of \<open>examples\<close> that the calls read and the keys at which they subscript
  \<open>citations\<close>, in the order of the module text.
\<close>

definition example_attributes :: "('c, 'f) environment \<Rightarrow> string list" where
  "example_attributes env = concat (map (\<lambda>c. map snd (examples c)) (register_calls env))"

definition cited_keys :: "('c, 'f) environment \<Rightarrow> string list" where
  "cited_keys env = concat (map cited (register_calls env))"

text \<open>
  Modelled from the spec: the \<open>examples\<close> module and the citation file \<open>citations.bib\<close>
  are not under src. The spec says of them that every example callable exists and
  every cited key exists in the citation store.
\<close>

definition examples_and_citations_exist :: "('c, 'f) environment \<Rightarrow> bool" where
  "examples_and_citations_exist env =
     (list_all (\<lambda>a. a \<in> set (map fst (examples_module env))) (example_attributes env)
      \<and> list_all (\<lambda>k. k \<in> set (map fst (citations_bib env))) (cited_keys env))"

subsection \<open>A concrete environment\<close>

text \<open>
  An environment on which the module can be evaluated: a citation store with the
  fifteen keys the module subscripts, an \<open>examples\<close> namespace with the thirty-five
  attributes it reads (entries and callables are numbered), and short metric
  collections.
\<close>

definition sample_environment :: "(nat, nat) environment" where
  "sample_environment =
     \<lparr> version = ''2023.5.0'',
       citations_bib =
          [(''armstrong2021faithspd'', 0),
           (''chang2011variance'', 1),
           (''chen2012genUnifrac'', 2),
           (''faith1992conservation'', 3),
           (''hamady2010unifrac'', 4),
           (''jaccard1908nouvelles'', 5),
           (''lozupone2005unifrac'', 6),
           (''lozupone2007unifrac'', 7),
           (''lozupone2008metaunifrac'', 8),
           (''lozupone2011unifrac'', 9),
           (''mcdonald2018unifrac'', 10),
           (''pielou1966measurement'', 11),
           (''sfiligoi2022unifrac'', 12),
           (''shannon1948communication'', 13),
           (''sorensen1948method'', 14)],
       examples_module =
          [(''faith_pd_example'', 0),
           (''observed_features_example'', 1),
           (''pielou_evenness_example'', 2),
           (''pielou_drop_example'', 3),
           (''shannon_entropy_example'', 4),
           (''shannon_drop_example'', 5),
           (''bray_curtis_example'', 6),
           (''bray_curtis_n_jobs_example'', 7),
           (''bray_curtis_auto_jobs_example'', 8),
           (''jaccard_example'', 9),
           (''jaccard_n_jobs_example'', 10),
           (''jaccard_auto_jobs_example'', 11),
           (''u_u_example'', 12),
           (''u_u_n_threads_example'', 13),
           (''u_u_auto_threads_example'', 14),
           (''u_u_bypass_tips_example'', 15),
           (''w_u_example'', 16),
           (''w_u_n_threads_example'', 17),
           (''w_u_auto_threads_example'', 18),
           (''w_u_bypass_tips_example'', 19),
           (''alpha_passthrough_example'', 20),
           (''beta_passthrough_example'', 21),
           (''beta_passthrough_n_jobs_example'', 22),
           (''beta_passthrough_auto_jobs_example'', 23),
           (''beta_passthrough_pseudocount_example'', 24),
           (''beta_phylo_passthrough_example'', 25),
           (''beta_phylo_passthrough_n_threads_example'', 26),
           (''beta_phylo_passthrough_auto_threads_example'', 27),
           (''beta_phylo_passthrough_bypass_tips_example'', 28),
           (''beta_phylo_passthrough_variance_adjusted_example'', 29),
           (''beta_phylo_passthrough_min_generalized_unifrac_example'', 30),
           (''beta_phylo_passthrough_generalized_unifrac_example'', 31),
           (''beta_phylo_meta_passthrough_example'', 32),
           (''beta_phylo_meta_weights_example'', 33),
           (''beta_phylo_meta_consolidation_example'', 34)],
       alpha_METRICS_NONPHYLO_UNIMPL = [''simpson'', ''chao1''],
       beta_METRICS_NONPHYLO_UNIMPL = [''euclidean'', ''aitchison''],
       beta_METRICS_PHYLO_UNIMPL = [''generalized_unifrac'', ''weighted_normalized_unifrac''],
       CONSOLIDATIONS = [''skipping_missing_values'', ''missing_zero''] \<rparr>"

text \<open>The same environment with a citation store that lacks \<open>pielou1966measurement\<close>.\<close>

definition incomplete_environment :: "(nat, nat) environment" where
  "incomplete_environment =
     sample_environment\<lparr>citations_bib :=
       filter (\<lambda>(k, c). k \<noteq> ''pielou1966measurement'') (citations_bib sample_environment)\<rparr>"

section \<open>Properties\<close>

subsection \<open>Reading the twelve calls\<close>

lemmas registration_defs =
  faith_pd_registration_def observed_features_registration_def
  pielou_evenness_registration_def shannon_entropy_registration_def
  bray_curtis_registration_def jaccard_registration_def
  unweighted_unifrac_registration_def weighted_unifrac_registration_def
  alpha_passthrough_registration_def beta_passthrough_registration_def
  beta_phylogenetic_passthrough_registration_def
  beta_phylogenetic_meta_passthrough_registration_def

lemma ball_set_Cons: "(\<forall>x \<in> set (a # xs). P x) = (P a \<and> (\<forall>x \<in> set xs. P x))"
  by simp

lemma ball_set_Nil: "(\<forall>x \<in> set []. P x) = True"
  by simp

lemma twelve_calls: "length (register_calls env) = 12"
  by (simp add: register_calls_def)

lemma names_distinct: "distinct (registered_names env)"
  unfolding registered_names_def register_calls_def list.map registration_defs
  by (simp only: registration.select_convs) simp

lemma calls_documented: "\<forall>c \<in> set (register_calls env). parameters_documented c"
  unfolding register_calls_def ball_set_Cons ball_set_Nil parameters_documented_def
    registration_defs
  by (simp only: registration.select_convs) simp

lemma parameters_documented_cong:
  "parameters r = parameters c \<Longrightarrow> parameter_descriptions r = parameter_descriptions c \<Longrightarrow>
   parameters_documented r = parameters_documented c"
  unfolding parameters_documented_def by (simp split: option.splits)

lemma faith_pd_lookups:
  "function_ref faith_pd_registration = alpha ''faith_pd''"
  "examples faith_pd_registration = [(''basic'', ''faith_pd_example'')]"
  "citations faith_pd_registration = Some [''faith1992conservation'', ''armstrong2021faithspd'']"
  unfolding faith_pd_registration_def by (simp_all only: registration.select_convs)

lemma observed_features_lookups:
  "function_ref observed_features_registration = alpha ''observed_features''"
  "examples observed_features_registration = [(''basic'', ''observed_features_example'')]"
  "citations observed_features_registration = None"
  unfolding observed_features_registration_def by (simp_all only: registration.select_convs)

lemma pielou_evenness_lookups:
  "function_ref pielou_evenness_registration = alpha ''pielou_evenness''"
  "examples pielou_evenness_registration =
     [(''basic'', ''pielou_evenness_example''),
      (''dropping undefined samples'', ''pielou_drop_example'')]"
  "citations pielou_evenness_registration = Some [''pielou1966measurement'']"
  unfolding pielou_evenness_registration_def by (simp_all only: registration.select_convs)

lemma alpha_parameter:
  "(''alpha'', Refine Float (Range (Some 0) (Some 1) True True))
     \<in> set (parameter_list (beta_phylogenetic_passthrough_registration env))"
  unfolding parameter_list_def beta_phylogenetic_passthrough_registration_def
  by (simp only: registration.select_convs) simp

lemma threads_parameter:
  "(''threads'', Union_type (Refine Int_type (Range (Some 1) None True False))
                            (Refine Str (Choices [''auto''])))
     \<in> set (parameter_list faith_pd_registration)"
  unfolding parameter_list_def faith_pd_registration_def
  by (simp only: registration.select_convs) simp

lemma phylogenies_input:
  "(''phylogenies'', List (Phylogeny {Rooted}))
     \<in> set (inputs (beta_phylogenetic_meta_passthrough_registration env))"
  unfolding beta_phylogenetic_meta_passthrough_registration_def
  by (simp only: registration.select_convs) simp

lemma admits_thread_count:
  "admits (Union_type (Refine Int_type (Range (Some 1) None True False))
                      (Refine Str (Choices [''auto'']))) v
   \<longleftrightarrow> (\<exists>k. v = VInt k \<and> 1 \<le> k) \<or> v = VStr ''auto''"
  by (cases v) (auto simp: in_range_def)

text \<open>
  What the declared float types admit: \<open>Float % Range(0, 1, inclusive_end=True)\<close> takes
  the integer 0 and NaN besides the reals of the interval, and \<open>List[Float]\<close> takes a
  list of integers but not the empty list.
\<close>

lemma admits_float_and_list:
  "admits (Refine Float (Range (Some 0) (Some 1) True True)) (VInt 0)"
  "admits (Refine Float (Range (Some 0) (Some 1) True True)) VNaN"
  "admits (Refine Float (Range (Some 0) (Some 1) True True)) (VFloat (1 / 2))"
  "\<not> admits (Refine Float (Range (Some 0) (Some 1) True True)) (VFloat (3 / 2))"
  "\<not> admits (ListOf Float) (VList [])"
  "admits (ListOf Float) (VList [VInt 1, VInt 2])"
  by (simp_all add: in_range_def)

subsection \<open>Evaluating the arguments of a call\<close>

lemma examples_dict_bound:
  "examples_dict m kas = Inr kfs \<Longrightarrow>
     list_all2 (\<lambda>(k, a) (k', f). k' = k \<and> map_of m a = Some f) kas kfs"
proof (induction kas arbitrary: kfs)
  case Nil
  then show ?case by simp
next
  case (Cons ka kas)
  obtain k a where ka: "ka = (k, a)" by (cases ka)
  from Cons.prems ka obtain f kfs' where
    f: "map_of m a = Some f" and rest: "examples_dict m kas = Inr kfs'"
    and kfs: "kfs = (k, f) # kfs'"
    by (auto simp: getattribute_def split: option.splits sum.splits)
  from Cons.IH [OF rest] f kfs ka show ?case by simp
qed

lemma citation_list_bound:
  "citation_list d ks = Inr cs \<Longrightarrow> list_all2 (\<lambda>k c. map_of d k = Some c) ks cs"
proof (induction ks arbitrary: cs)
  case Nil
  then show ?case by simp
next
  case (Cons k ks)
  from Cons.prems obtain c cs' where
    c: "map_of d k = Some c" and rest: "citation_list d ks = Inr cs'" and cs: "cs = c # cs'"
    by (auto simp: getitem_def split: option.splits sum.splits)
  from Cons.IH [OF rest] c cs show ?case by simp
qed

lemma examples_dict_succeeds:
  "\<forall>(k, a) \<in> set kas. a \<in> set (map fst m) \<Longrightarrow> \<exists>kfs. examples_dict m kas = Inr kfs"
proof (induction kas)
  case Nil
  then show ?case by simp
next
  case (Cons ka kas)
  obtain k a where ka: "ka = (k, a)" by (cases ka)
  with Cons.prems have "a \<in> fst ` set m" by simp
  then obtain f where "map_of m a = Some f"
    by (metis map_of_eq_None_iff not_Some_eq)
  moreover from Cons obtain kfs where "examples_dict m kas = Inr kfs" by auto
  ultimately show ?case using ka by (simp add: getattribute_def)
qed

lemma citation_list_succeeds:
  "\<forall>k \<in> set ks. k \<in> set (map fst d) \<Longrightarrow> \<exists>cs. citation_list d ks = Inr cs"
proof (induction ks)
  case Nil
  then show ?case by simp
next
  case (Cons k ks)
  then have "k \<in> fst ` set d" by simp
  then obtain c where "map_of d k = Some c"
    by (metis map_of_eq_None_iff not_Some_eq)
  moreover from Cons obtain cs where "citation_list d ks = Inr cs" by auto
  ultimately show ?case by (simp add: getitem_def)
qed

lemma evaluate_arguments_cases:
  assumes "evaluate_arguments env c = Inr r"
  shows "\<exists>exs. examples_dict (examples_module env) (examples c) = Inr exs \<and>
           ((citations c = None \<and> r = with_objects c exs None) \<or>
            (\<exists>ks cs. citations c = Some ks \<and> citation_list (citations_bib env) ks = Inr cs
                \<and> r = with_objects c exs (Some cs)))"
  using assms unfolding evaluate_arguments_def
  by (simp split: sum.splits option.splits)

lemma evaluate_arguments_static:
  assumes "evaluate_arguments env c = Inr r"
  shows "function_ref r = function_ref c" and "inputs r = inputs c"
    and "parameters r = parameters c" and "outputs r = outputs c"
    and "input_descriptions r = input_descriptions c"
    and "parameter_descriptions r = parameter_descriptions c"
    and "output_descriptions r = output_descriptions c"
    and "name r = name c" and "description r = description c"
  using evaluate_arguments_cases [OF assms] by (auto simp: with_objects_def)

lemma evaluate_arguments_examples:
  assumes "evaluate_arguments env c = Inr r"
  shows "list_all2 (\<lambda>(k, a) (k', f). k' = k \<and> map_of (examples_module env) a = Some f)
           (examples c) (examples r)"
  using evaluate_arguments_cases [OF assms]
  by (auto simp: with_objects_def dest: examples_dict_bound)

lemma evaluate_arguments_citations:
  assumes "evaluate_arguments env c = Inr r"
  shows "list_all2 (\<lambda>k e. map_of (citations_bib env) k = Some e) (cited c) (cited r)"
  using evaluate_arguments_cases [OF assms]
  by (auto simp: with_objects_def cited_def dest: citation_list_bound)

lemma evaluate_arguments_succeeds:
  assumes "lookups_defined env c"
  shows "\<exists>r. evaluate_arguments env c = Inr r"
proof -
  from assms obtain exs where exs: "examples_dict (examples_module env) (examples c) = Inr exs"
    using examples_dict_succeeds [of "examples c" "examples_module env"]
    by (auto simp: lookups_defined_def list_all_iff)
  show ?thesis
  proof (cases "citations c")
    case None
    with exs show ?thesis by (simp add: evaluate_arguments_def)
  next
    case (Some ks)
    with assms obtain cs where "citation_list (citations_bib env) ks = Inr cs"
      using citation_list_succeeds [of ks "citations_bib env"]
      by (auto simp: lookups_defined_def list_all_iff cited_def)
    with exs Some show ?thesis by (simp add: evaluate_arguments_def)
  qed
qed

lemma evaluate_arguments_lookups:
  assumes "evaluate_arguments env c = Inr r"
  shows "lookups_defined env c"
proof -
  have ex: "a \<in> set (map fst (examples_module env))" if "(k, a) \<in> set (examples c)" for k a
  proof -
    from that obtain i where i: "i < length (examples c)" "examples c ! i = (k, a)"
      by (auto simp: in_set_conv_nth)
    from evaluate_arguments_examples [OF assms] i
    obtain f where "map_of (examples_module env) a = Some f"
      by (cases "examples r ! i") (auto simp: list_all2_conv_all_nth)
    then show ?thesis by (auto dest: map_of_SomeD intro: rev_image_eqI)
  qed
  have ci: "k \<in> set (map fst (citations_bib env))" if "k \<in> set (cited c)" for k
  proof -
    from that obtain i where i: "i < length (cited c)" "cited c ! i = k"
      by (auto simp: in_set_conv_nth)
    from evaluate_arguments_citations [OF assms] i
    have "map_of (citations_bib env) k = Some (cited r ! i)"
      by (auto simp: list_all2_conv_all_nth)
    then show ?thesis by (auto dest: map_of_SomeD intro: rev_image_eqI)
  qed
  from ex ci show ?thesis
    by (auto simp: lookups_defined_def list_all_iff)
qed

subsection \<open>Running the calls\<close>

lemma run_calls_lookup:
  "methods (fst (run_calls env cs p)) k = Some r \<Longrightarrow>
     methods p k = Some r
     \<or> (\<exists>c \<in> set cs. evaluate_arguments env c = Inr r \<and> callable_name (function_ref c) = k)"
proof (induction cs arbitrary: p)
  case Nil
  then show ?case by simp
next
  case (Cons c cs)
  show ?case
  proof (cases "evaluate_arguments env c")
    case (Inl e)
    with Cons.prems show ?thesis by simp
  next
    case (Inr r')
    with Cons.prems have "methods (fst (run_calls env cs (register_function p r'))) k = Some r"
      by simp
    from Cons.IH [OF this] show ?thesis
    proof
      assume "methods (register_function p r') k = Some r"
      then show ?thesis
        using Inr evaluate_arguments_static(1) [OF Inr]
        by (auto simp: register_function_def split: if_splits)
    next
      assume "\<exists>c \<in> set cs. evaluate_arguments env c = Inr r \<and> callable_name (function_ref c) = k"
      then show ?thesis by auto
    qed
  qed
qed

lemma loaded_from_call:
  assumes "methods (fst (module_load env)) k = Some r"
  shows "\<exists>c \<in> set (register_calls env).
           evaluate_arguments env c = Inr r \<and> callable_name (function_ref c) = k"
  using run_calls_lookup [of env "register_calls env" "Plugin env" k r] assms
  by (simp add: module_load_def Plugin_def)

lemma run_calls_append:
  "run_calls env (xs @ ys) p =
     (case run_calls env xs p of
        (p', Some e) \<Rightarrow> (p', Some e)
      | (p', None) \<Rightarrow> run_calls env ys p')"
  by (induction xs arbitrary: p) (auto split: sum.splits)

lemma run_calls_metadata:
  "(fst (run_calls env cs p))\<lparr>methods := m\<rparr> = p\<lparr>methods := m\<rparr>"
  by (induction cs arbitrary: p) (auto simp: register_function_def split: sum.splits)

lemma run_calls_keeps:
  "k \<notin> set (map (\<lambda>c. callable_name (function_ref c)) cs) \<Longrightarrow>
     methods (fst (run_calls env cs p)) k = methods p k"
proof (induction cs arbitrary: p)
  case Nil
  then show ?case by simp
next
  case (Cons c cs)
  show ?case
  proof (cases "evaluate_arguments env c")
    case (Inl e)
    then show ?thesis by simp
  next
    case (Inr r)
    from Cons.prems have "k \<noteq> callable_name (function_ref r)"
      using evaluate_arguments_static(1) [OF Inr] by auto
    with Cons Inr show ?thesis by (simp add: register_function_def)
  qed
qed

lemma run_calls_dom:
  "dom (methods (fst (run_calls env cs p)))
     \<subseteq> dom (methods p) \<union> set (map (\<lambda>c. callable_name (function_ref c)) cs)"
proof
  fix k assume "k \<in> dom (methods (fst (run_calls env cs p)))"
  then obtain r where "methods (fst (run_calls env cs p)) k = Some r" by blast
  from run_calls_lookup [OF this]
  show "k \<in> dom (methods p) \<union> set (map (\<lambda>c. callable_name (function_ref c)) cs)"
    by auto
qed

lemma run_calls_dom_success:
  "snd (run_calls env cs p) = None \<Longrightarrow>
     dom (methods (fst (run_calls env cs p)))
       = dom (methods p) \<union> set (map (\<lambda>c. callable_name (function_ref c)) cs)"
proof (induction cs arbitrary: p)
  case Nil
  then show ?case by simp
next
  case (Cons c cs)
  show ?case
  proof (cases "evaluate_arguments env c")
    case (Inl e)
    with Cons.prems show ?thesis by simp
  next
    case (Inr r)
    with Cons.prems have "snd (run_calls env cs (register_function p r)) = None" by simp
    from Cons.IH [OF this] Inr evaluate_arguments_static(1) [OF Inr]
    show ?thesis by (auto simp: register_function_def)
  qed
qed

lemma run_calls_succeeds:
  "\<forall>c \<in> set cs. lookups_defined env c \<Longrightarrow> snd (run_calls env cs p) = None"
proof (induction cs arbitrary: p)
  case Nil
  then show ?case by simp
next
  case (Cons c cs)
  then obtain r where "evaluate_arguments env c = Inr r"
    using evaluate_arguments_succeeds [of env c] by auto
  with Cons show ?case by simp
qed

lemma run_calls_completes:
  "snd (run_calls env cs p) = None \<Longrightarrow> \<forall>c \<in> set cs. lookups_defined env c"
proof (induction cs arbitrary: p)
  case Nil
  then show ?case by simp
next
  case (Cons c cs)
  show ?case
  proof (cases "evaluate_arguments env c")
    case (Inl e)
    with Cons.prems show ?thesis by simp
  next
    case (Inr r)
    with Cons.prems have "snd (run_calls env cs (register_function p r)) = None" by simp
    from Cons.IH [OF this] evaluate_arguments_lookups [OF Inr] show ?thesis by simp
  qed
qed

lemma ball_example_attributes:
  "(\<forall>a \<in> set (concat (map (\<lambda>c. map snd (examples c)) cs)). P a)
     \<longleftrightarrow> (\<forall>c \<in> set cs. \<forall>(k, a) \<in> set (examples c). P a)"
  by (simp add: case_prod_unfold)

lemma ball_cited_keys:
  "(\<forall>k \<in> set (concat (map cited cs)). P k) \<longleftrightarrow> (\<forall>c \<in> set cs. \<forall>k \<in> set (cited c). P k)"
  by simp

lemma exist_iff_lookups_defined:
  "examples_and_citations_exist env
     \<longleftrightarrow> (\<forall>c \<in> set (register_calls env). lookups_defined env c)"
  unfolding examples_and_citations_exist_def lookups_defined_def example_attributes_def
    cited_keys_def list_all_iff ball_example_attributes ball_cited_keys
  by blast

lemma module_load_completes_iff:
  "snd (module_load env) = None \<longleftrightarrow> examples_and_citations_exist env"
  unfolding module_load_def exist_iff_lookups_defined
  using run_calls_completes run_calls_succeeds by blast

lemma example_attributes_listed:
  "example_attributes env =
     [''faith_pd_example'', ''observed_features_example'', ''pielou_evenness_example'',
      ''pielou_drop_example'', ''shannon_entropy_example'', ''shannon_drop_example'',
      ''bray_curtis_example'', ''bray_curtis_n_jobs_example'',
      ''bray_curtis_auto_jobs_example'', ''jaccard_example'', ''jaccard_n_jobs_example'',
      ''jaccard_auto_jobs_example'', ''u_u_example'', ''u_u_n_threads_example'',
      ''u_u_auto_threads_example'', ''u_u_bypass_tips_example'', ''w_u_example'',
      ''w_u_n_threads_example'', ''w_u_auto_threads_example'', ''w_u_bypass_tips_example'',
      ''alpha_passthrough_example'', ''beta_passthrough_example'',
      ''beta_passthrough_n_jobs_example'', ''beta_passthrough_auto_jobs_example'',
      ''beta_passthrough_pseudocount_example'', ''beta_phylo_passthrough_example'',
      ''beta_phylo_passthrough_n_threads_example'',
      ''beta_phylo_passthrough_auto_threads_example'',
      ''beta_phylo_passthrough_bypass_tips_example'',
      ''beta_phylo_passthrough_variance_adjusted_example'',
      ''beta_phylo_passthrough_min_generalized_unifrac_example'',
      ''beta_phylo_passthrough_generalized_unifrac_example'',
      ''beta_phylo_meta_passthrough_example'', ''beta_phylo_meta_weights_example'',
      ''beta_phylo_meta_consolidation_example'']"
  unfolding example_attributes_def register_calls_def list.map registration_defs
  by (simp only: registration.select_convs) simp

lemma cited_keys_listed:
  "set (cited_keys env) =
     {''faith1992conservation'', ''armstrong2021faithspd'', ''pielou1966measurement'',
      ''shannon1948communication'', ''sorensen1948method'', ''jaccard1908nouvelles'',
      ''lozupone2005unifrac'', ''lozupone2007unifrac'', ''hamady2010unifrac'',
      ''lozupone2011unifrac'', ''mcdonald2018unifrac'', ''chang2011variance'',
      ''chen2012genUnifrac'', ''sfiligoi2022unifrac'', ''lozupone2008metaunifrac''}"
  unfolding cited_keys_def register_calls_def list.map cited_def registration_defs
  by (simp only: registration.select_convs) auto

text \<open>
  A record registered by a prefix of the calls is still there, unchanged, after any
  further calls: the later calls register other names.
\<close>

lemma run_calls_extends:
  assumes d: "distinct (map (\<lambda>c. callable_name (function_ref c)) (xs @ ys))"
    and e: "methods p = Map.empty"
    and l: "methods (fst (run_calls env xs p)) k = Some r"
  shows "methods (fst (run_calls env (xs @ ys) p)) k = Some r"
proof (cases "run_calls env xs p")
  case (Pair p' err)
  show ?thesis
  proof (cases err)
    case (Some e)
    with Pair l show ?thesis by (simp add: run_calls_append)
  next
    case None
    from l have "k \<in> dom (methods (fst (run_calls env xs p)))" by blast
    with run_calls_dom [of env xs p] e
    have "k \<in> set (map (\<lambda>c. callable_name (function_ref c)) xs)" by auto
    with d have "k \<notin> set (map (\<lambda>c. callable_name (function_ref c)) ys)" by auto
    from run_calls_keeps [OF this, of env p'] Pair None l
    show ?thesis by (simp add: run_calls_append)
  qed
qed

lemma state_after_mono:
  assumes "n \<le> m" and "methods (state_after env n) k = Some r"
  shows "methods (state_after env m) k = Some r"
proof -
  let ?cs = "register_calls env"
  have split: "take m ?cs = take n ?cs @ drop n (take m ?cs)"
    using assms(1) by (metis append_take_drop_id min.absorb1 take_take)
  have "distinct (map (\<lambda>c. callable_name (function_ref c)) (take m ?cs))"
    using names_distinct [of env]
    by (simp add: registered_names_def distinct_take take_map [symmetric])
  with split have d: "distinct (map (\<lambda>c. callable_name (function_ref c))
      (take n ?cs @ drop n (take m ?cs)))" by simp
  have e: "methods (Plugin env) = Map.empty" by (simp add: Plugin_def)
  from run_calls_extends [OF d e] assms(2) split
  show ?thesis by (simp add: state_after_def)
qed

lemma state_after_all: "state_after env (length (register_calls env)) = fst (module_load env)"
  by (simp add: state_after_def module_load_def)

lemma state_after_twelve: "state_after env 12 = fst (module_load env)"
  using state_after_all [of env] by (simp only: twelve_calls)

subsection \<open>The module on the concrete environments\<close>

lemma sample_lookups_defined:
  "\<forall>c \<in> set (register_calls sample_environment). lookups_defined sample_environment c"
  unfolding register_calls_def ball_set_Cons ball_set_Nil lookups_defined_def cited_def
    registration_defs
  by (simp only: registration.select_convs) (simp add: sample_environment_def)

lemma sample_environment_loads: "snd (module_load sample_environment) = None"
  unfolding module_load_def by (rule run_calls_succeeds [OF sample_lookups_defined])

lemma sample_first_call:
  "methods (state_after sample_environment 1) ''faith_pd''
     = Some (with_objects faith_pd_registration [(''basic'', 0)] (Some [3, 0]))"
proof -
  have "evaluate_arguments sample_environment faith_pd_registration
          = Inr (with_objects faith_pd_registration [(''basic'', 0)] (Some [3, 0]))"
    by (simp add: evaluate_arguments_def faith_pd_lookups getattribute_def getitem_def
        sample_environment_def)
  moreover have "function_ref (with_objects faith_pd_registration [(''basic'', 0 :: nat)]
      (Some [3, 0 :: nat])) = alpha ''faith_pd''"
    by (simp add: with_objects_def faith_pd_lookups)
  ultimately show ?thesis
    by (simp add: state_after_def register_calls_def register_function_def)
qed

text \<open>
  With a citation store that lacks one key the import stops at the third call, whose
  \<open>citations['pielou1966measurement']\<close> raises; the two records registered before it
  stay in the plugin object.
\<close>

lemma incomplete_environment_stops:
  "snd (module_load incomplete_environment) = Some (KeyError ''pielou1966measurement'')
   \<and> dom (methods (fst (module_load incomplete_environment)))
       = {''faith_pd'', ''observed_features''}"
proof -
  have 1: "evaluate_arguments incomplete_environment faith_pd_registration
          = Inr (with_objects faith_pd_registration [(''basic'', 0)] (Some [3, 0]))"
    by (simp add: evaluate_arguments_def faith_pd_lookups getattribute_def getitem_def
        incomplete_environment_def sample_environment_def)
  have 2: "evaluate_arguments incomplete_environment observed_features_registration
          = Inr (with_objects observed_features_registration [(''basic'', 1)] None)"
    by (simp add: evaluate_arguments_def observed_features_lookups getattribute_def
        incomplete_environment_def sample_environment_def)
  have 3: "evaluate_arguments incomplete_environment pielou_evenness_registration
          = Inl (KeyError ''pielou1966measurement'')"
    by (simp add: evaluate_arguments_def pielou_evenness_lookups getattribute_def getitem_def
        incomplete_environment_def sample_environment_def)
  show ?thesis
    by (simp add: module_load_def register_calls_def 1 2 3 register_function_def Plugin_def
        with_objects_def faith_pd_lookups observed_features_lookups insert_commute)
qed

section \<open>The claims\<close>

text \<open>
  C1. Every registration record that a \<open>register_function\<close> call of the module creates
  is internally consistent. Each parameter its \<open>parameters\<close> schema declares has an entry
  in its \<open>parameter_descriptions\<close> (both are \<open>None\<close> together where there are no
  parameters). Under each key of its \<open>examples\<close> it holds the callable that the
  \<open>examples\<close> module binds to the attribute the call names there, and that attribute
  exists. Each citation it lists is the entry the citation store holds under the key
  the call names, and that key exists. The calls name the thirty-five attributes and
  the fifteen keys listed; the import runs to its end exactly when the \<open>examples\<close>
  module and the citation store have them all, as the spec says they do, and then all
  twelve records are created.
\<close>

theorem registration_internally_consistent:
  "(\<forall>k r. methods (fst (module_load env)) k = Some r \<longrightarrow>
      (\<exists>c \<in> set (register_calls env).
          callable_name (function_ref c) = k
        \<and> parameters_documented r
        \<and> list_all2 (\<lambda>(key, a) (key', f). key' = key \<and> map_of (examples_module env) a = Some f)
             (examples c) (examples r)
        \<and> list_all2 (\<lambda>key e. map_of (citations_bib env) key = Some e) (cited c) (cited r)))
   \<and> (\<forall>c \<in> set (register_calls env). parameters_documented c)
   \<and> example_attributes env =
       [''faith_pd_example'', ''observed_features_example'', ''pielou_evenness_example'',
        ''pielou_drop_example'', ''shannon_entropy_example'', ''shannon_drop_example'',
        ''bray_curtis_example'', ''bray_curtis_n_jobs_example'',
        ''bray_curtis_auto_jobs_example'', ''jaccard_example'', ''jaccard_n_jobs_example'',
        ''jaccard_auto_jobs_example'', ''u_u_example'', ''u_u_n_threads_example'',
        ''u_u_auto_threads_example'', ''u_u_bypass_tips_example'', ''w_u_example'',
        ''w_u_n_threads_example'', ''w_u_auto_threads_example'', ''w_u_bypass_tips_example'',
        ''alpha_passthrough_example'', ''beta_passthrough_example'',
        ''beta_passthrough_n_jobs_example'', ''beta_passthrough_auto_jobs_example'',
        ''beta_passthrough_pseudocount_example'', ''beta_phylo_passthrough_example'',
        ''beta_phylo_passthrough_n_threads_example'',
        ''beta_phylo_passthrough_auto_threads_example'',
        ''beta_phylo_passthrough_bypass_tips_example'',
        ''beta_phylo_passthrough_variance_adjusted_example'',
        ''beta_phylo_passthrough_min_generalized_unifrac_example'',
        ''beta_phylo_passthrough_generalized_unifrac_example'',
        ''beta_phylo_meta_passthrough_example'', ''beta_phylo_meta_weights_example'',
        ''beta_phylo_meta_consolidation_example'']
   \<and> set (cited_keys env) =
       {''faith1992conservation'', ''armstrong2021faithspd'', ''pielou1966measurement'',
        ''shannon1948communication'', ''sorensen1948method'', ''jaccard1908nouvelles'',
        ''lozupone2005unifrac'', ''lozupone2007unifrac'', ''hamady2010unifrac'',
        ''lozupone2011unifrac'', ''mcdonald2018unifrac'', ''chang2011variance'',
        ''chen2012genUnifrac'', ''sfiligoi2022unifrac'', ''lozupone2008metaunifrac''}
   \<and> (snd (module_load env) = None \<longleftrightarrow> examples_and_citations_exist env)
   \<and> (examples_and_citations_exist env \<longrightarrow>
        dom (methods (fst (module_load env))) = set (registered_names env))"
proof -
  have rec: "\<exists>c \<in> set (register_calls env).
          callable_name (function_ref c) = k
        \<and> parameters_documented r
        \<and> list_all2 (\<lambda>(key, a) (key', f). key' = key \<and> map_of (examples_module env) a = Some f)
             (examples c) (examples r)
        \<and> list_all2 (\<lambda>key e. map_of (citations_bib env) key = Some e) (cited c) (cited r)"
    if l: "methods (fst (module_load env)) k = Some r" for k r
  proof -
    from loaded_from_call [OF l] obtain c where
      c: "c \<in> set (register_calls env)" and ev: "evaluate_arguments env c = Inr r"
      and k: "callable_name (function_ref c) = k"
      by blast
    have "parameters_documented c"
      using calls_documented c by blast
    then have "parameters_documented r"
      using parameters_documented_cong [OF evaluate_arguments_static(3,6) [OF ev]] by simp
    note p = this
    show ?thesis
      by (rule bexI [OF _ c])
        (intro conjI k p evaluate_arguments_examples [OF ev] evaluate_arguments_citations [OF ev])
  qed
  have all: "dom (methods (fst (module_load env))) = set (registered_names env)"
    if "examples_and_citations_exist env"
  proof -
    from that have "snd (module_load env) = None"
      by (simp only: module_load_completes_iff)
    with run_calls_dom_success [of env "register_calls env" "Plugin env"]
    show ?thesis
      by (simp add: module_load_def registered_names_def Plugin_def)
  qed
  have recs: "\<forall>k r. methods (fst (module_load env)) k = Some r \<longrightarrow>
      (\<exists>c \<in> set (register_calls env).
          callable_name (function_ref c) = k
        \<and> parameters_documented r
        \<and> list_all2 (\<lambda>(key, a) (key', f). key' = key \<and> map_of (examples_module env) a = Some f)
             (examples c) (examples r)
        \<and> list_all2 (\<lambda>key e. map_of (citations_bib env) key = Some e) (cited c) (cited r))"
    by (intro allI impI) (rule rec)
  have alls: "examples_and_citations_exist env \<longrightarrow>
        dom (methods (fst (module_load env))) = set (registered_names env)"
    by (rule impI) (rule all)
  show ?thesis
    by (intro conjI recs calls_documented example_attributes_listed cited_keys_listed
        module_load_completes_iff alls)
qed

text \<open>
  C1 on the two concrete environments. On the first every name exists: the import
  runs to its end, and \<open>faith_pd\<close> is registered with the callable bound to
  \<open>faith_pd_example\<close> and the entries under its two keys. On the second a key is
  missing and the import stops.
\<close>

theorem registration_internally_consistent_witness:
  "examples_and_citations_exist sample_environment
   \<and> snd (module_load sample_environment) = None
   \<and> dom (methods (fst (module_load sample_environment)))
       = set (registered_names sample_environment)
   \<and> methods (fst (module_load sample_environment)) ''faith_pd''
       = Some (with_objects faith_pd_registration [(''basic'', 0)] (Some [3, 0]))
   \<and> parameters_documented
        (with_objects faith_pd_registration [(''basic'', 0 :: nat)] (Some [3, 0 :: nat]))
   \<and> map_of (examples_module sample_environment) ''faith_pd_example'' = Some 0
   \<and> map_of (citations_bib sample_environment) ''faith1992conservation'' = Some 3
   \<and> map_of (citations_bib sample_environment) ''armstrong2021faithspd'' = Some 0
   \<and> \<not> examples_and_citations_exist incomplete_environment
   \<and> snd (module_load incomplete_environment) = Some (KeyError ''pielou1966measurement'')"
proof -
  note t = registration_internally_consistent [of sample_environment]
  note u = registration_internally_consistent [of incomplete_environment]
  note t1 = t [THEN conjunct1]
  note t5 = t [THEN conjunct2, THEN conjunct2, THEN conjunct2, THEN conjunct2, THEN conjunct1]
  note t6 = t [THEN conjunct2, THEN conjunct2, THEN conjunct2, THEN conjunct2, THEN conjunct2]
  note u5 = u [THEN conjunct2, THEN conjunct2, THEN conjunct2, THEN conjunct2, THEN conjunct1]
  have e: "examples_and_citations_exist sample_environment"
    using sample_lookups_defined by (simp only: exist_iff_lookups_defined)
  have s: "snd (module_load sample_environment) = None"
    by (rule t5 [THEN iffD2, OF e])
  have d: "dom (methods (fst (module_load sample_environment)))
       = set (registered_names sample_environment)"
    by (rule t6 [THEN mp, OF e])
  have "methods (state_after sample_environment 12) ''faith_pd''
     = Some (with_objects faith_pd_registration [(''basic'', 0)] (Some [3, 0]))"
    by (rule state_after_mono [OF _ sample_first_call]) simp
  then have l: "methods (fst (module_load sample_environment)) ''faith_pd''
     = Some (with_objects faith_pd_registration [(''basic'', 0)] (Some [3, 0]))"
    by (simp only: state_after_twelve)
  from t1 [rule_format, OF l] have p: "parameters_documented
        (with_objects faith_pd_registration [(''basic'', 0 :: nat)] (Some [3, 0 :: nat]))"
    by (elim bexE conjE)
  have m: "map_of (examples_module sample_environment) ''faith_pd_example'' = Some 0"
    "map_of (citations_bib sample_environment) ''faith1992conservation'' = Some 3"
    "map_of (citations_bib sample_environment) ''armstrong2021faithspd'' = Some 0"
    by (simp_all add: sample_environment_def)
  have f: "snd (module_load incomplete_environment) = Some (KeyError ''pielou1966measurement'')"
    by (rule incomplete_environment_stops [THEN conjunct1])
  from u5 f have n: "\<not> examples_and_citations_exist incomplete_environment" by simp
  from e s d l p m n f show ?thesis by (intro conjI)
qed

text \<open>
  C2. Every registered function declares exactly one output, and it is either the
  per-sample vector \<open>('vector', SampleData[AlphaDiversity])\<close> or the pairwise distance
  matrix \<open>('distance_matrix', DistanceMatrix)\<close>.
\<close>

theorem one_output_vector_or_distance_matrix:
  "\<forall>c \<in> set (register_calls env).
     outputs c = [(''vector'', SampleData AlphaDiversity)]
   \<or> outputs c = [(''distance_matrix'', DistanceMatrix)]"
  unfolding register_calls_def ball_set_Cons ball_set_Nil registration_defs
  by (simp only: registration.select_convs) simp

text \<open>C2 on the first call of the module.\<close>

theorem one_output_vector_or_distance_matrix_witness:
  "faith_pd_registration \<in> set (register_calls sample_environment)
   \<and> (outputs faith_pd_registration = [(''vector'', SampleData AlphaDiversity)]
      \<or> outputs faith_pd_registration = [(''distance_matrix'', DistanceMatrix)])"
proof -
  have m: "faith_pd_registration \<in> set (register_calls sample_environment)"
    by (simp add: register_calls_def)
  from one_output_vector_or_distance_matrix [of sample_environment, THEN bspec, OF m] m
  show ?thesis by simp
qed

text \<open>
  C3, as amended. Every parameter declared in any registration is of one of the four
  constraint forms (an integer restricted to a range, a string restricted to an
  enumerated set of choices, a boolean, a float bounded to \<open>[0, 1]\<close>) or a union of
  them; the one exception is \<open>weights\<close> of \<open>beta_phylogenetic_meta_passthrough\<close>, declared
  \<open>List[Float]\<close>, which is none of these forms.
\<close>

theorem parameter_constraint_forms:
  "\<forall>c \<in> set (register_calls env). \<forall>(n, t) \<in> set (parameter_list c).
      (n = ''weights'' \<longrightarrow>
          function_ref c = beta ''beta_phylogenetic_meta_passthrough'' \<and> t = ListOf Float)
    \<and> (n \<noteq> ''weights'' \<longrightarrow> constraint_form t)"
  unfolding register_calls_def ball_set_Cons ball_set_Nil parameter_list_def registration_defs
  by (simp only: registration.select_convs) simp

text \<open>C3 as amended, on the parameter \<open>alpha\<close> of \<open>beta_phylogenetic_passthrough\<close>.\<close>

theorem parameter_constraint_forms_witness:
  "beta_phylogenetic_passthrough_registration sample_environment
      \<in> set (register_calls sample_environment)
   \<and> (''alpha'', Refine Float (Range (Some 0) (Some 1) True True))
      \<in> set (parameter_list (beta_phylogenetic_passthrough_registration sample_environment))
   \<and> ''alpha'' \<noteq> ''weights''
   \<and> constraint_form (Refine Float (Range (Some 0) (Some 1) True True))"
proof -
  have m: "beta_phylogenetic_passthrough_registration sample_environment
      \<in> set (register_calls sample_environment)"
    by (simp add: register_calls_def)
  have n: "''alpha'' \<noteq> ''weights''" by simp
  from parameter_constraint_forms
         [of sample_environment, THEN bspec, OF m, THEN bspec, OF alpha_parameter] n
  have c: "constraint_form (Refine Float (Range (Some 0) (Some 1) True True))"
    by (simp del: constraint_form.simps)
  from m alpha_parameter [of sample_environment] n c show ?thesis
    by (intro conjI)
qed

text \<open>
  C3 as stated fails: \<open>weights\<close> of \<open>beta_phylogenetic_meta_passthrough\<close> is declared
  \<open>List[Float]\<close>, which is none of the four constraint forms and admits the list \<open>[2.5]\<close>,
  a float outside \<open>[0, 1]\<close>.
\<close>

theorem weights_outside_constraint_forms:
  "beta_phylogenetic_meta_passthrough_registration sample_environment
      \<in> set (register_calls sample_environment)
   \<and> map_of (parameter_list (beta_phylogenetic_meta_passthrough_registration sample_environment))
        ''weights'' = Some (ListOf Float)
   \<and> \<not> constraint_form (ListOf Float)
   \<and> admits (ListOf Float) (VList [VFloat (5 / 2)])
   \<and> \<not> (5 / 2 \<le> (1 :: real))"
  unfolding register_calls_def parameter_list_def
    beta_phylogenetic_meta_passthrough_registration_def
  by (simp only: registration.select_convs) simp

text \<open>
  C4. Every parameter named \<open>threads\<close> or \<open>n_jobs\<close> is declared
  \<open>Int % Range(1, None) | Str % Choices(['auto'])\<close>; that type admits exactly the
  integers from 1 upwards and the string \<open>'auto'\<close>; and the argument given for it reaches
  the external library as it was given.
\<close>

theorem thread_count_type_and_forwarding:
  "\<forall>c \<in> set (register_calls env). \<forall>(n, t) \<in> set (parameter_list c).
     n = ''threads'' \<or> n = ''n_jobs'' \<longrightarrow>
       t = Union_type (Refine Int_type (Range (Some 1) None True False))
                      (Refine Str (Choices [''auto'']))
       \<and> (\<forall>v. admits t v \<longleftrightarrow> (\<exists>k. v = VInt k \<and> 1 \<le> k) \<or> v = VStr ''auto'')
       \<and> (\<forall>args. forwarded_arguments c args n = args n)"
  unfolding register_calls_def ball_set_Cons ball_set_Nil parameter_list_def
    forwarded_arguments_def parameter_names_def registration_defs
  by (simp only: registration.select_convs) (simp add: admits_thread_count del: admits.simps)

text \<open>C4 on \<open>threads\<close> of \<open>faith_pd\<close>: 4 and \<open>'auto'\<close> are admitted, 0 is not.\<close>

theorem thread_count_type_and_forwarding_witness:
  "faith_pd_registration \<in> set (register_calls sample_environment)
   \<and> (''threads'', Union_type (Refine Int_type (Range (Some 1) None True False))
                              (Refine Str (Choices [''auto''])))
      \<in> set (parameter_list faith_pd_registration)
   \<and> admits (Union_type (Refine Int_type (Range (Some 1) None True False))
                         (Refine Str (Choices [''auto'']))) (VInt 4)
   \<and> admits (Union_type (Refine Int_type (Range (Some 1) None True False))
                         (Refine Str (Choices [''auto'']))) (VStr ''auto'')
   \<and> \<not> admits (Union_type (Refine Int_type (Range (Some 1) None True False))
                           (Refine Str (Choices [''auto'']))) (VInt 0)
   \<and> forwarded_arguments faith_pd_registration [''threads'' \<mapsto> VStr ''auto''] ''threads''
        = Some (VStr ''auto'')"
proof -
  have m: "faith_pd_registration \<in> set (register_calls sample_environment)"
    by (simp add: register_calls_def)
  from thread_count_type_and_forwarding
         [of sample_environment, THEN bspec, OF m, THEN bspec, OF threads_parameter]
    m threads_parameter
  show ?thesis by (simp del: admits.simps)
qed

text \<open>
  C5. The parameter names declared across all registrations of the module are exactly
  \<open>threads\<close>, \<open>n_jobs\<close>, \<open>drop_undefined_samples\<close>, \<open>metric\<close>, \<open>pseudocount\<close>,
  \<open>variance_adjusted\<close>, \<open>alpha\<close>, \<open>bypass_tips\<close>, \<open>weights\<close> and \<open>consolidation\<close>; no
  registration declares a parameter outside this set.
\<close>

theorem declared_parameter_names:
  "(\<Union>c \<in> set (register_calls env). set (parameter_names c)) =
     {''threads'', ''n_jobs'', ''drop_undefined_samples'', ''metric'', ''pseudocount'',
      ''variance_adjusted'', ''alpha'', ''bypass_tips'', ''weights'', ''consolidation''}"
  unfolding register_calls_def parameter_list_def parameter_names_def registration_defs
  apply (simp only: registration.select_convs list.set list.map option.case image_insert
      image_empty UN_insert UN_empty fst_conv)
  apply (simp only: Un_insert_left Un_insert_right Un_empty_left Un_empty_right insert_absorb2)
  apply auto
  done

text \<open>
  C7. The registration records are created once each and never changed afterwards.
  The twelve calls register twelve different names. After the \<open>Plugin\<close> object is
  constructed the module only runs these calls: at every point the plugin's metadata
  is what the constructor set, and a record present after \<open>n\<close> calls is present,
  unchanged and under the same name, after any \<open>m \<ge> n\<close> calls and so at the end of the
  import. The plugin holds records under the registered names only, and under all
  twelve once the import has succeeded.
\<close>

theorem records_created_once_and_kept:
  "distinct (registered_names env)
   \<and> (\<forall>n. (state_after env n)\<lparr>methods := Map.empty\<rparr> = Plugin env)
   \<and> (\<forall>n m k r. n \<le> m \<longrightarrow> methods (state_after env n) k = Some r
          \<longrightarrow> methods (state_after env m) k = Some r)
   \<and> fst (module_load env) = state_after env (length (register_calls env))
   \<and> dom (methods (fst (module_load env))) \<subseteq> set (registered_names env)
   \<and> (snd (module_load env) = None
        \<longrightarrow> dom (methods (fst (module_load env))) = set (registered_names env))"
proof -
  have meta: "(state_after env n)\<lparr>methods := Map.empty\<rparr> = Plugin env" for n
    using run_calls_metadata [where env = env and cs = "take n (register_calls env)"
        and p = "Plugin env" and m = Map.empty]
    by (simp add: state_after_def Plugin_def)
  have sub: "dom (methods (fst (module_load env))) \<subseteq> set (registered_names env)"
    using run_calls_dom [of env "register_calls env" "Plugin env"]
    by (simp add: module_load_def registered_names_def Plugin_def)
  have eq: "dom (methods (fst (module_load env))) = set (registered_names env)"
    if "snd (module_load env) = None"
    using run_calls_dom_success [of env "register_calls env" "Plugin env"] that
    by (simp add: module_load_def registered_names_def Plugin_def)
  have mono: "\<forall>n m k r. n \<le> m \<longrightarrow> methods (state_after env n) k = Some r
          \<longrightarrow> methods (state_after env m) k = Some r"
    using state_after_mono by blast
  have final: "fst (module_load env) = state_after env (length (register_calls env))"
    by (rule state_after_all [symmetric])
  from names_distinct [of env] meta mono final sub eq show ?thesis
    by (intro conjI allI impI) simp_all
qed

text \<open>
  C7 on the concrete environment: the record of \<open>faith_pd\<close>, registered by the first
  call, is the same after all twelve; the import succeeds and leaves twelve records.
\<close>

theorem records_created_once_and_kept_witness:
  "methods (state_after sample_environment 1) ''faith_pd''
     = Some (with_objects faith_pd_registration [(''basic'', 0)] (Some [3, 0]))
   \<and> methods (state_after sample_environment 12) ''faith_pd''
     = Some (with_objects faith_pd_registration [(''basic'', 0)] (Some [3, 0]))
   \<and> snd (module_load sample_environment) = None
   \<and> dom (methods (fst (module_load sample_environment)))
       = set (registered_names sample_environment)
   \<and> (state_after sample_environment 12)\<lparr>methods := Map.empty\<rparr> = Plugin sample_environment"
proof -
  note t = records_created_once_and_kept [of sample_environment]
  from t have mono: "\<forall>n m k r. n \<le> m
      \<longrightarrow> methods (state_after sample_environment n) k = Some r
      \<longrightarrow> methods (state_after sample_environment m) k = Some r"
    by (elim conjE)
  have le: "(1 :: nat) \<le> 12" by simp
  from t sample_environment_loads
  have d: "dom (methods (fst (module_load sample_environment)))
      = set (registered_names sample_environment)"
    by blast
  from t have m: "(state_after sample_environment 12)\<lparr>methods := Map.empty\<rparr>
      = Plugin sample_environment"
    by blast
  from mono [rule_format, OF le sample_first_call] sample_first_call
    sample_environment_loads d m
  show ?thesis by (intro conjI)
qed

text \<open>
  C8. The registration of \<open>beta.weighted_unifrac\<close>, named \<open>Weighted Unifrac\<close>, describes
  its output \<open>distance_matrix\<close> as \<open>Distance matrix for Unweighted Unifrac.\<close>: the
  description text of the Unweighted Unifrac registration.
\<close>

theorem weighted_unifrac_output_description:
  "function_ref weighted_unifrac_registration = beta ''weighted_unifrac''
   \<and> name weighted_unifrac_registration = ''Weighted Unifrac''
   \<and> outputs weighted_unifrac_registration = [(''distance_matrix'', DistanceMatrix)]
   \<and> output_descriptions weighted_unifrac_registration =
        [(''distance_matrix'', ''Distance matrix for Unweighted Unifrac.'')]
   \<and> name unweighted_unifrac_registration = ''Unweighted Unifrac''
   \<and> output_descriptions weighted_unifrac_registration =
        output_descriptions unweighted_unifrac_registration"
  unfolding weighted_unifrac_registration_def unweighted_unifrac_registration_def
  by (simp only: registration.select_convs)

text \<open>
  C9. The registrations fall into three classes by the table normalizations they
  accept. \<open>jaccard\<close>, \<open>faith_pd\<close>, \<open>observed_features\<close> and \<open>unweighted_unifrac\<close> take
  \<open>FeatureTable[Frequency | RelativeFrequency | PresenceAbsence]\<close>; \<open>pielou_evenness\<close>,
  \<open>shannon_entropy\<close>, \<open>bray_curtis\<close> and \<open>weighted_unifrac\<close> take
  \<open>FeatureTable[Frequency | RelativeFrequency]\<close>, so no presence/absence table; the
  passthrough functions take \<open>FeatureTable[Frequency]\<close> only, the meta passthrough as
  the tables of its list input \<open>tables\<close>. These twelve are all the registrations.
\<close>

theorem table_normalization_partition:
  "set (registered_names env) =
       {''jaccard'', ''faith_pd'', ''observed_features'', ''unweighted_unifrac''}
     \<union> {''pielou_evenness'', ''shannon_entropy'', ''bray_curtis'', ''weighted_unifrac''}
     \<union> {''alpha_passthrough'', ''beta_passthrough'', ''beta_phylogenetic_passthrough'',
         ''beta_phylogenetic_meta_passthrough''}
   \<and> (\<forall>c \<in> set (register_calls env).
        (callable_name (function_ref c)
            \<in> {''jaccard'', ''faith_pd'', ''observed_features'', ''unweighted_unifrac''} \<longrightarrow>
           map_of (inputs c) ''table''
             = Some (FeatureTable {Frequency, RelativeFrequency, PresenceAbsence})
           \<and> accepted_normalizations c = [{Frequency, RelativeFrequency, PresenceAbsence}])
      \<and> (callable_name (function_ref c)
            \<in> {''pielou_evenness'', ''shannon_entropy'', ''bray_curtis'', ''weighted_unifrac''} \<longrightarrow>
           map_of (inputs c) ''table'' = Some (FeatureTable {Frequency, RelativeFrequency})
           \<and> accepted_normalizations c = [{Frequency, RelativeFrequency}]
           \<and> PresenceAbsence \<notin> \<Union> (set (accepted_normalizations c)))
      \<and> (callable_name (function_ref c)
            \<in> {''alpha_passthrough'', ''beta_passthrough'', ''beta_phylogenetic_passthrough''} \<longrightarrow>
           map_of (inputs c) ''table'' = Some (FeatureTable {Frequency})
           \<and> accepted_normalizations c = [{Frequency}])
      \<and> (callable_name (function_ref c) = ''beta_phylogenetic_meta_passthrough'' \<longrightarrow>
           map_of (inputs c) ''tables'' = Some (List (FeatureTable {Frequency}))
           \<and> accepted_normalizations c = [{Frequency}]))"
  unfolding registered_names_def register_calls_def ball_set_Cons ball_set_Nil
    accepted_normalizations_def list.map registration_defs
  by (simp only: registration.select_convs) auto

text \<open>C9 on \<open>weighted_unifrac\<close>, which takes no presence/absence table.\<close>

theorem table_normalization_partition_witness:
  "weighted_unifrac_registration \<in> set (register_calls sample_environment)
   \<and> callable_name (function_ref weighted_unifrac_registration) = ''weighted_unifrac''
   \<and> map_of (inputs weighted_unifrac_registration) ''table''
        = Some (FeatureTable {Frequency, RelativeFrequency})
   \<and> accepted_normalizations weighted_unifrac_registration = [{Frequency, RelativeFrequency}]"
proof -
  have m: "weighted_unifrac_registration \<in> set (register_calls sample_environment)"
    by (simp add: register_calls_def)
  have n: "callable_name (function_ref weighted_unifrac_registration) = ''weighted_unifrac''"
    unfolding weighted_unifrac_registration_def
    by (simp only: registration.select_convs) simp
  from table_normalization_partition [of sample_environment, THEN conjunct2, THEN bspec, OF m]
    m n
  show ?thesis by simp
qed

text \<open>
  C10. Every input named \<open>phylogeny\<close> or \<open>phylogenies\<close> is typed \<open>Phylogeny[Rooted]\<close> or
  \<open>List[Phylogeny[Rooted]]\<close>, and no input of any registration accepts an unrooted
  tree.
\<close>

theorem phylogeny_inputs_rooted:
  "\<forall>c \<in> set (register_calls env). \<forall>(n, t) \<in> set (inputs c).
     (n = ''phylogeny'' \<or> n = ''phylogenies'' \<longrightarrow>
        t = Phylogeny {Rooted} \<or> t = List (Phylogeny {Rooted}))
     \<and> \<not> accepts_unrooted t"
  unfolding register_calls_def ball_set_Cons ball_set_Nil registration_defs
  by (simp only: registration.select_convs) simp

text \<open>C10 on the input \<open>phylogenies\<close> of \<open>beta_phylogenetic_meta_passthrough\<close>.\<close>

theorem phylogeny_inputs_rooted_witness:
  "beta_phylogenetic_meta_passthrough_registration sample_environment
      \<in> set (register_calls sample_environment)
   \<and> (''phylogenies'', List (Phylogeny {Rooted}))
      \<in> set (inputs (beta_phylogenetic_meta_passthrough_registration sample_environment))
   \<and> \<not> accepts_unrooted (List (Phylogeny {Rooted}))"
proof -
  have m: "beta_phylogenetic_meta_passthrough_registration sample_environment
      \<in> set (register_calls sample_environment)"
    by (simp add: register_calls_def)
  from phylogeny_inputs_rooted
         [of sample_environment, THEN bspec, OF m, THEN bspec, OF phylogenies_input]
    m phylogenies_input [of sample_environment]
  show ?thesis by simp
qed

end
